theory Spec2Isabelle
  imports Main
begin

section \<open>Token broker: the in-memory session table (src/lib/sessions.ts)\<close>

text \<open>
  The module keeps \<^verbatim>\<open>sessionStore = new Map<string, {token, expiresAt, createdAt}>()\<close>.
  Times are the millisecond readings of \<^verbatim>\<open>Date.now()\<close>, integers far below \<open>2^53\<close>, so they
  are modelled as \<open>int\<close>. Every function takes the table and returns the table it leaves
  behind. \<^verbatim>\<open>getSessionToken\<close> reads the clock twice (once for the expiry test and once in
  the refresh branch); the two readings are the parameters \<open>now1\<close> and \<open>now2\<close>.
\<close>

record session =
  token :: string
  expiresAt :: int
  createdAt :: int

type_synonym sessionStore = "string \<rightharpoonup> session"

definition thirtyDays :: int where
  "thirtyDays = 30 * 24 * 60 * 60 * 1000"

definition refreshThreshold :: int where
  "refreshThreshold = 7 * 24 * 60 * 60 * 1000"

text \<open>The body of the hourly \<^verbatim>\<open>setInterval\<close> callback: every expired entry is deleted.\<close>

definition sweepSessions :: "int \<Rightarrow> sessionStore \<Rightarrow> sessionStore" where
  "sweepSessions now store =
     (\<lambda>sessionId. case store sessionId of
        None \<Rightarrow> None
      | Some s \<Rightarrow> if expiresAt s < now then None else Some s)"

text \<open>
  \<^verbatim>\<open>createSession\<close>: the cookie credential and the fresh random id are inputs of the model;
  a missing credential is the thrown error (\<open>None\<close>).
\<close>

definition createSession :: "string option \<Rightarrow> string \<Rightarrow> int \<Rightarrow> sessionStore \<Rightarrow> (string \<times> sessionStore) option" where
  "createSession cookieToken sessionId now store =
     (case cookieToken of
        None \<Rightarrow> None
      | Some t \<Rightarrow>
          if t = [] then None
          else Some (sessionId,
                     store(sessionId \<mapsto> \<lparr>token = t, expiresAt = now + thirtyDays, createdAt = now\<rparr>)))"

definition getSessionToken :: "string \<Rightarrow> bool \<Rightarrow> int \<Rightarrow> int \<Rightarrow> sessionStore \<Rightarrow> string option \<times> sessionStore" where
  "getSessionToken sessionId autoRefresh now1 now2 store =
     (case store sessionId of
        None \<Rightarrow> (None, store)
      | Some s \<Rightarrow>
          if expiresAt s < now1 then (None, store(sessionId := None))
          else if autoRefresh then
            (let timeUntilExpiry = expiresAt s - now2 in
             if timeUntilExpiry < refreshThreshold
             then (Some (token s), store(sessionId \<mapsto> s\<lparr>expiresAt := now2 + thirtyDays\<rparr>))
             else (Some (token s), store))
          else (Some (token s), store))"

definition deleteSession :: "string \<Rightarrow> sessionStore \<Rightarrow> sessionStore" where
  "deleteSession sessionId store = store(sessionId := None)"

text \<open>\<^verbatim>\<open>getSession\<close> is \<^verbatim>\<open>sessionStore.get(sessionId) || null\<close>: a lookup and nothing else.\<close>

definition getSession :: "string \<Rightarrow> sessionStore \<Rightarrow> session option \<times> sessionStore" where
  "getSession sessionId store = (store sessionId, store)"

section \<open>Strings as the code sees them\<close>

text \<open>
  Strings are lists of 8-bit characters (Latin-1 code units). \<^verbatim>\<open>trim()\<close> strips the
  ECMAScript white space and line terminators; those that exist in this range are listed.
  Case conversion is the ASCII one (the texts compared in the code are ASCII).
  Truthiness of a possibly missing string: present and not empty.
\<close>

definition isJsSpace :: "char \<Rightarrow> bool" where
  "isJsSpace c = (c \<in> set [CHR 0x09, CHR 0x0A, CHR 0x0B, CHR 0x0C, CHR 0x0D, CHR '' '', CHR 0xA0])"

definition trim :: "string \<Rightarrow> string" where
  "trim s = rev (dropWhile isJsSpace (rev (dropWhile isJsSpace s)))"

definition startsWith :: "string \<Rightarrow> string \<Rightarrow> bool" where
  "startsWith s p = (take (length p) s = p)"

definition substringFrom :: "string \<Rightarrow> nat \<Rightarrow> string" where
  "substringFrom s n = drop n s"

definition upperLetters :: string where
  "upperLetters = ''ABCDEFGHIJKLMNOPQRSTUVWXYZ''"

definition lowerLetters :: string where
  "lowerLetters = ''abcdefghijklmnopqrstuvwxyz''"

definition toLowerChar :: "char \<Rightarrow> char" where
  "toLowerChar c = (case map_of (zip upperLetters lowerLetters) c of Some d \<Rightarrow> d | None \<Rightarrow> c)"

definition toUpperChar :: "char \<Rightarrow> char" where
  "toUpperChar c = (case map_of (zip lowerLetters upperLetters) c of Some d \<Rightarrow> d | None \<Rightarrow> c)"

definition toLowerCase :: "string \<Rightarrow> string" where
  "toLowerCase s = map toLowerChar s"

definition truthy :: "string option \<Rightarrow> bool" where
  "truthy v = (case v of None \<Rightarrow> False | Some s \<Rightarrow> s \<noteq> [])"

section \<open>Inbound rate limiter: caller identity (getRequestIdentifier)\<close>

text \<open>
  A \<^verbatim>\<open>Request\<close> as far as the limiter reads it: the query parameters of its URL
  (\<^verbatim>\<open>url.searchParams.get\<close>) and its headers. \<^verbatim>\<open>Headers.get\<close> ignores the case of the
  name, so the header map is keyed by lower-case names and \<open>headersGet\<close> lowers the name
  it is asked for.
\<close>

record inboundRequest =
  searchParams :: "string \<rightharpoonup> string"
  headers :: "string \<rightharpoonup> string"

definition headersGet :: "inboundRequest \<Rightarrow> string \<Rightarrow> string option" where
  "headersGet r name = headers r (toLowerCase name)"

definition splitFirst :: "char \<Rightarrow> string \<Rightarrow> string" where
  "splitFirst sep s = takeWhile (\<lambda>c. c \<noteq> sep) s"

definition getRequestIdentifier :: "inboundRequest \<Rightarrow> string" where
  "getRequestIdentifier r =
     (let sessionId = searchParams r ''sessionId'' in
      if truthy sessionId then ''session:'' @ the sessionId
      else
        let authHeader = headersGet r ''Authorization'' in
        if truthy authHeader \<and> startsWith (the authHeader) ''Bearer session:''
        then ''session:'' @ substringFrom (the authHeader) 15
        else
          let forwardedFor = headersGet r ''x-forwarded-for'';
              ip = (if truthy forwardedFor then trim (splitFirst CHR '','' (the forwardedFor))
                    else if truthy (headersGet r ''x-real-ip'') then the (headersGet r ''x-real-ip'')
                    else ''unknown'')
          in ''ip:'' @ ip)"

section \<open>Matter Intelligence Brief: the rendered document (src/lib/tools/matter-intelligence-brief.ts)\<close>


record recentActivity =
  a_id :: string
  a_note :: string
  a_created_at :: string
  a_created_by :: "string option"

record pendingTask =
  t_id :: string
  t_subject :: string
  t_due_date :: "string option"
  t_assigned_to :: "string option"













section \<open>Resilient API client: the response interceptors (src/lib/clio-client-production.ts)\<close>

text \<open>
  \<^verbatim>\<open>parseInt(s, 10)\<close>: leading white space is skipped, one sign is read, then the longest
  run of decimal digits; with no digit the result is \<^verbatim>\<open>NaN\<close>, which is \<open>None\<close> here.
  A number that may be \<^verbatim>\<open>NaN\<close> is an \<open>int option\<close>.
\<close>

definition digitValue :: "char \<Rightarrow> int option" where
  "digitValue c = map_of (zip ''0123456789'' [0, 1, 2, 3, 4, 5, 6, 7, 8, 9]) c"

definition isDigit :: "char \<Rightarrow> bool" where
  "isDigit c = (digitValue c \<noteq> None)"

definition decimalValue :: "string \<Rightarrow> int" where
  "decimalValue ds = foldl (\<lambda>acc c. 10 * acc + the (digitValue c)) 0 ds"

definition parseInt10 :: "string \<Rightarrow> int option" where
  "parseInt10 s =
     (let t = dropWhile isJsSpace s;
          neg = (t \<noteq> [] \<and> hd t = CHR ''-'');
          u = (if t \<noteq> [] \<and> (hd t = CHR ''-'' \<or> hd t = CHR ''+'') then tl t else t);
          ds = takeWhile isDigit u
      in if ds = [] then None
         else Some (if neg then - decimalValue ds else decimalValue ds))"

text \<open>
  What the remote side does with one transmission, and what axios makes of it. The
  instance is created with \<^verbatim>\<open>timeout: 30000\<close>: a reply that has not arrived after 30000 ms
  is abandoned and the call is rejected with code ECONNABORTED and no response; a reply
  whose status is outside 200..299 is rejected with the response attached (axios' default
  \<^verbatim>\<open>validateStatus\<close>). Header names are lower-case, as axios delivers them.
\<close>

record response =
  status :: nat
  respHeaders :: "string \<rightharpoonup> string"
  respData :: string

datatype remote = Reply nat response | Silent | Unreachable

datatype outcome = Responded response | Failed string

definition timeout :: nat where
  "timeout = 30000"

definition transmit :: "remote \<Rightarrow> outcome" where
  "transmit b =
     (case b of
        Reply ms r \<Rightarrow> if ms < timeout then Responded r else Failed ''ECONNABORTED''
      | Silent \<Rightarrow> Failed ''ECONNABORTED''
      | Unreachable \<Rightarrow> Failed ''ERR_NETWORK'')"

datatype error = Error string | AxiosError outcome

definition authenticationFailed :: error where
  "authenticationFailed = Error ''Authentication failed. Please re-authenticate via the web interface.''"

definition rateLimitExceeded :: error where
  "rateLimitExceeded = Error ''Rate limit exceeded. Please try again later.''"

text \<open>
  The state of a client instance: its rate-limit estimate, and the trace of what it did
  (\<open>Sent k\<close>: the transmission number \<open>k\<close>, counted from 0, went out; \<open>Slept ms\<close>: a call
  of \<^verbatim>\<open>sleep(ms)\<close> completed). The logging calls are not part of the model.
\<close>

record rateLimitState =
  remaining :: "int option"
  resetAt :: "int option"

datatype event = Sent nat | Slept "int option"

record clientState =
  rateLimit :: rateLimitState
  trace :: "event list"

definition maxRetries :: nat where
  "maxRetries = 3"

definition baseRetryDelay :: int where
  "baseRetryDelay = 1000"

definition calculateBackoffDelay :: "nat \<Rightarrow> int" where
  "calculateBackoffDelay retryCount = baseRetryDelay * 2 ^ retryCount"

definition sleep :: "int option \<Rightarrow> clientState \<Rightarrow> clientState" where
  "sleep ms st = st\<lparr>trace := trace st @ [Slept ms]\<rparr>"

text \<open>The fulfilled branch of the response interceptor: the estimate follows the headers.\<close>

definition onFulfilled :: "response \<Rightarrow> clientState \<Rightarrow> clientState" where
  "onFulfilled r st =
     (let rl = rateLimit st;
          rl1 = (case respHeaders r ''x-ratelimit-remaining'' of
                   None \<Rightarrow> rl
                 | Some v \<Rightarrow> rl\<lparr>remaining := parseInt10 v\<rparr>);
          rl2 = (case respHeaders r ''x-ratelimit-reset'' of
                   None \<Rightarrow> rl1
                 | Some v \<Rightarrow> rl1\<lparr>resetAt := map_option (\<lambda>n. n * 1000) (parseInt10 v)\<rparr>)
      in st\<lparr>rateLimit := rl2\<rparr>)"

text \<open>The wait computed in the 429 branch.\<close>

definition rateLimitWait :: "response \<Rightarrow> nat \<Rightarrow> int option" where
  "rateLimitWait r retryCount =
     (let retryAfter = respHeaders r ''retry-after'' in
      if truthy retryAfter then map_option (\<lambda>n. n * 1000) (parseInt10 (the retryAfter))
      else Some (calculateBackoffDelay retryCount))"

text \<open>
  One logical call: \<^verbatim>\<open>axiosInstance.request(config)\<close> with \<^verbatim>\<open>config.__retryCount\<close> equal to
  \<open>retryCount\<close>, when \<open>attempt\<close> transmissions have gone out before. \<open>server k\<close> is what the
  remote side does with transmission \<open>k\<close>. The rejected branch of the interceptor either
  rejects or sleeps and issues the request again, which passes through the same
  interceptors.
\<close>

function request :: "(nat \<Rightarrow> remote) \<Rightarrow> nat \<Rightarrow> nat \<Rightarrow> clientState \<Rightarrow> (error + response) \<times> clientState" where
  "request server attempt retryCount st =
     (let st1 = st\<lparr>trace := trace st @ [Sent attempt]\<rparr> in
      case transmit (server attempt) of
        Failed code \<Rightarrow> (Inl (AxiosError (Failed code)), st1)
      | Responded r \<Rightarrow>
          if 200 \<le> status r \<and> status r < 300 then (Inr r, onFulfilled r st1)
          else if status r = 401 then (Inl authenticationFailed, st1)
          else if status r = 429 then
            (if retryCount < maxRetries
             then request server (attempt + 1) (retryCount + 1) (sleep (rateLimitWait r retryCount) st1)
             else (Inl rateLimitExceeded, st1))
          else if status r \<noteq> 0 \<and> status r \<ge> 500 \<and> retryCount < maxRetries
          then request server (attempt + 1) (retryCount + 1)
                 (sleep (Some (calculateBackoffDelay retryCount)) st1)
          else (Inl (AxiosError (Responded r)), st1))"
  by pat_completeness auto
termination
  by (relation "measure (\<lambda>(server, attempt, retryCount, st). maxRetries - retryCount)") auto

declare request.simps [simp del]

text \<open>A call as a caller of \<^verbatim>\<open>getInstance().get(...)\<close> issues it: nothing sent, no retry yet.\<close>

definition call :: "(nat \<Rightarrow> remote) \<Rightarrow> clientState \<Rightarrow> (error + response) \<times> clientState" where
  "call server st = request server 0 0 st"

definition initialState :: "int \<Rightarrow> clientState" where
  "initialState now = \<lparr>rateLimit = \<lparr>remaining = Some 1000, resetAt = Some (now + 60000)\<rparr>, trace = []\<rparr>"

definition plainResponse :: "nat \<Rightarrow> response" where
  "plainResponse code = \<lparr>status = code, respHeaders = Map.empty, respData = []\<rparr>"

text \<open>
  The wait that precedes the retry after a 429 or a 5xx response \<open>r\<close>, as the two retrying
  branches compute it.
\<close>

definition retryWait :: "response \<Rightarrow> nat \<Rightarrow> int option" where
  "retryWait r retryCount =
     (if status r = 429 then rateLimitWait r retryCount else Some (calculateBackoffDelay retryCount))"

text \<open>
  Remote sides used as concrete inputs: one that answers the listed status codes in turn
  (and 200 afterwards), each within 120 ms, and one whose first reply takes 45 seconds.
\<close>

definition scripted :: "nat list \<Rightarrow> nat \<Rightarrow> remote" where
  "scripted codes k = Reply 120 (plainResponse (if k < length codes then codes ! k else 200))"


section \<open>Regular expressions as the code uses them\<close>

text \<open>
  The redaction filter and the vagueness classifier are written with ECMAScript regular
  expressions. The fragment they use is embedded as data: a pattern is a sequence of
  items; an item is an atom (a greedy repetition \<open>{lo,hi}\<close> of a character class, a word
  boundary \<^verbatim>\<open>\b\<close>, or one of the anchors \<^verbatim>\<open>^\<close> and \<^verbatim>\<open>$\<close>) or a group of alternatives,
  each a sequence of atoms; an optional group \<^verbatim>\<open>(?:a|b)?\<close> is the group with a last, empty
  alternative. The matcher is the backtracking one of the language: it lists the ways a
  pattern can match at a position in the order backtracking tries them (longest repetition
  first, alternatives left to right), and the match is the first of the list. A match
  state is the character before the position, the number of characters consumed, and
  the rest of the input. With the \<^verbatim>\<open>i\<close> flag a character belongs to a class when one of its
  case variants does.
\<close>

definition isAlpha :: "char \<Rightarrow> bool" where
  "isAlpha c = (c \<in> set upperLetters \<or> c \<in> set lowerLetters)"

definition isWordChar :: "char \<Rightarrow> bool" where
  "isWordChar c = (isAlpha c \<or> isDigit c \<or> c = CHR ''_'')"

definition isLineTerminator :: "char \<Rightarrow> bool" where
  "isLineTerminator c = (c = CHR 0x0A \<or> c = CHR 0x0D)"

datatype cls = Pos "char \<Rightarrow> bool" | Neg "char \<Rightarrow> bool"

datatype atom = Rep nat "nat option" cls | WordB | Bol | Eol

datatype item = Atom atom | Alt "atom list list"

record regexp =
  items :: "item list"
  ignoreCase :: bool

type_synonym mstate = "char option \<times> nat \<times> string"

definition memberCI :: "bool \<Rightarrow> (char \<Rightarrow> bool) \<Rightarrow> char \<Rightarrow> bool" where
  "memberCI ci f c = (if ci then f c \<or> f (toUpperChar c) \<or> f (toLowerChar c) else f c)"

fun classMatch :: "bool \<Rightarrow> cls \<Rightarrow> char \<Rightarrow> bool" where
  "classMatch ci (Pos f) c = memberCI ci f c"
| "classMatch ci (Neg f) c = (\<not> memberCI ci f c)"

fun counts :: "nat \<Rightarrow> nat \<Rightarrow> nat list" where
  "counts lo 0 = (if lo = 0 then [0] else [])"
| "counts lo (Suc t) = (if lo \<le> Suc t then Suc t # counts lo t else [])"

definition wordBefore :: "char option \<Rightarrow> bool" where
  "wordBefore p = (case p of None \<Rightarrow> False | Some c \<Rightarrow> isWordChar c)"

definition wordAfter :: "string \<Rightarrow> bool" where
  "wordAfter s = (case s of [] \<Rightarrow> False | c # cs \<Rightarrow> isWordChar c)"

definition advance :: "mstate \<Rightarrow> nat \<Rightarrow> mstate" where
  "advance st i = (case st of (p, n, s) \<Rightarrow>
     (if take i s = [] then p else Some (last (take i s)), n + i, drop i s))"

fun matchAtom :: "bool \<Rightarrow> atom \<Rightarrow> mstate \<Rightarrow> mstate list" where
  "matchAtom ci (Rep lo hi c) (p, n, s) =
     (let avail = length (takeWhile (classMatch ci c) s);
          top = (case hi of None \<Rightarrow> avail | Some h \<Rightarrow> min h avail)
      in map (advance (p, n, s)) (counts lo top))"
| "matchAtom ci WordB (p, n, s) = (if wordBefore p \<noteq> wordAfter s then [(p, n, s)] else [])"
| "matchAtom ci Bol (p, n, s) = (if p = None then [(p, n, s)] else [])"
| "matchAtom ci Eol (p, n, s) = (if s = [] then [(p, n, s)] else [])"

primrec matchAtoms :: "bool \<Rightarrow> atom list \<Rightarrow> mstate \<Rightarrow> mstate list" where
  "matchAtoms ci [] st = [st]"
| "matchAtoms ci (a # as) st = concat (map (matchAtoms ci as) (matchAtom ci a st))"

fun matchItem :: "bool \<Rightarrow> item \<Rightarrow> mstate \<Rightarrow> mstate list" where
  "matchItem ci (Atom a) st = matchAtom ci a st"
| "matchItem ci (Alt alts) st = concat (map (\<lambda>a. matchAtoms ci a st) alts)"

primrec matchItems :: "bool \<Rightarrow> item list \<Rightarrow> mstate \<Rightarrow> mstate list" where
  "matchItems ci [] st = [st]"
| "matchItems ci (i # is) st = concat (map (matchItems ci is) (matchItem ci i st))"

definition matchAt :: "regexp \<Rightarrow> char option \<Rightarrow> string \<Rightarrow> nat option" where
  "matchAt re p s =
     (case matchItems (ignoreCase re) (items re) (p, 0, s) of
        [] \<Rightarrow> None
      | st # rest \<Rightarrow> Some (fst (snd st)))"

fun testFrom :: "regexp \<Rightarrow> char option \<Rightarrow> string \<Rightarrow> bool" where
  "testFrom re p [] = (matchAt re p [] \<noteq> None)"
| "testFrom re p (c # cs) = (if matchAt re p (c # cs) \<noteq> None then True else testFrom re (Some c) cs)"

definition regexTest :: "regexp \<Rightarrow> string \<Rightarrow> bool" where
  "regexTest re s = testFrom re None s"

function replaceFrom :: "regexp \<Rightarrow> (string \<Rightarrow> string) \<Rightarrow> char option \<Rightarrow> string \<Rightarrow> string" where
  "replaceFrom re f p s =
     (case matchAt re p s of
        Some n \<Rightarrow>
          if 0 < n \<and> s \<noteq> []
          then f (take n s) @ replaceFrom re f (Some (last (take n s))) (drop n s)
          else f [] @ (case s of [] \<Rightarrow> [] | c # cs \<Rightarrow> c # replaceFrom re f (Some c) cs)
      | None \<Rightarrow> (case s of [] \<Rightarrow> [] | c # cs \<Rightarrow> c # replaceFrom re f (Some c) cs))"
  by pat_completeness auto
termination
  by (relation "measure (\<lambda>(re, f, p, s). length s)") auto

declare replaceFrom.simps [simp del]

definition replaceAll :: "regexp \<Rightarrow> (string \<Rightarrow> string) \<Rightarrow> string \<Rightarrow> string" where
  "replaceAll re f s = replaceFrom re f None s"

definition single :: "cls \<Rightarrow> atom" where "single c = Rep 1 (Some 1) c"
definition optional :: "cls \<Rightarrow> atom" where "optional c = Rep 0 (Some 1) c"
definition zeroOrMore :: "cls \<Rightarrow> atom" where "zeroOrMore c = Rep 0 None c"
definition oneOrMore :: "cls \<Rightarrow> atom" where "oneOrMore c = Rep 1 None c"
definition exactly :: "nat \<Rightarrow> cls \<Rightarrow> atom" where "exactly k c = Rep k (Some k) c"
definition lit :: "string \<Rightarrow> atom list" where "lit w = map (\<lambda>ch. single (Pos (\<lambda>c. c = ch))) w"
definition anyOf :: "string \<Rightarrow> cls" where "anyOf cs = Pos (\<lambda>c. c \<in> set cs)"
definition digit :: cls where "digit = Pos isDigit"
definition space :: cls where "space = Pos isJsSpace"

text \<open>
  The patterns of \<^verbatim>\<open>redactPII\<close>, in the order the function applies them. The 9-digit and
  the 13-19-digit patterns use a replacement callback; the callback of the former tests
  \<^verbatim>\<open>/^(?!000|666|9)\d{3}/\<close> on the match, which is \<open>looksLikeSsn\<close>. The replacement
  text of the name pattern refers to a first capture group, and the pattern has none
  (its only group is non-capturing), so the two characters \<^verbatim>\<open>$1\<close> are emitted as they
  are.
\<close>

definition alnum :: "char \<Rightarrow> bool" where
  "alnum c = (isAlpha c \<or> isDigit c)"

definition dashDot :: cls where "dashDot = anyOf ''-.''"
definition dashDotSpace :: cls where "dashDotSpace = Pos (\<lambda>c. c \<in> set ''-.'' \<or> isJsSpace c)"
definition spaceDash :: cls where "spaceDash = Pos (\<lambda>c. isJsSpace c \<or> c = CHR ''-'')"
definition notQuote :: cls where "notQuote = Neg (\<lambda>c. c = CHR ''\"'')"
definition anyChar :: cls where "anyChar = Neg isLineTerminator"

text \<open>\<^verbatim>\<open>/\b[A-Za-z0-9._%+-]+@[A-Za-z0-9.-]+\.[A-Z|a-z]{2,}\b/gi\<close>\<close>

definition emailRe :: regexp where
  "emailRe = \<lparr>items = map Atom
       ([WordB, oneOrMore (Pos (\<lambda>c. alnum c \<or> c \<in> set ''._%+-''))] @ lit ''@''
        @ [oneOrMore (Pos (\<lambda>c. alnum c \<or> c \<in> set ''.-''))] @ lit ''.''
        @ [Rep 2 None (Pos (\<lambda>c. isAlpha c \<or> c = CHR ''|'')), WordB]),
     ignoreCase = True\<rparr>"

text \<open>\<^verbatim>\<open>/\b\d{3}[-.]?\d{3}[-.]?\d{4}\b/g\<close>\<close>

definition phoneRe1 :: regexp where
  "phoneRe1 = \<lparr>items = map Atom
       [WordB, exactly 3 digit, optional dashDot, exactly 3 digit, optional dashDot, exactly 4 digit, WordB],
     ignoreCase = False\<rparr>"

text \<open>\<^verbatim>\<open>/\b\(\d{3}\)\s?\d{3}[-.]?\d{4}\b/g\<close>\<close>

definition phoneRe2 :: regexp where
  "phoneRe2 = \<lparr>items = map Atom
       ([WordB] @ lit ''('' @ [exactly 3 digit] @ lit '')''
        @ [optional space, exactly 3 digit, optional dashDot, exactly 4 digit, WordB]),
     ignoreCase = False\<rparr>"

text \<open>\<^verbatim>\<open>/\b\+?\d{1,3}[-.\s]?\(?\d{3}\)?[-.\s]?\d{3}[-.\s]?\d{4}\b/g\<close>\<close>

definition phoneRe3 :: regexp where
  "phoneRe3 = \<lparr>items = map Atom
       [WordB, optional (anyOf ''+''), Rep 1 (Some 3) digit, optional dashDotSpace, optional (anyOf ''(''),
        exactly 3 digit, optional (anyOf '')''), optional dashDotSpace, exactly 3 digit, optional dashDotSpace,
        exactly 4 digit, WordB],
     ignoreCase = False\<rparr>"

text \<open>\<^verbatim>\<open>/\b\d{3}-\d{2}-\d{4}\b/g\<close>\<close>

definition ssnRe1 :: regexp where
  "ssnRe1 = \<lparr>items = map Atom
       ([WordB, exactly 3 digit] @ lit ''-'' @ [exactly 2 digit] @ lit ''-'' @ [exactly 4 digit, WordB]),
     ignoreCase = False\<rparr>"

text \<open>\<^verbatim>\<open>/\b\d{9}\b/g\<close>\<close>

definition ssnRe2 :: regexp where
  "ssnRe2 = \<lparr>items = map Atom [WordB, exactly 9 digit, WordB], ignoreCase = False\<rparr>"

definition looksLikeSsn :: "string \<Rightarrow> bool" where
  "looksLikeSsn m = (\<not> startsWith m ''000'' \<and> \<not> startsWith m ''666'' \<and> \<not> startsWith m ''9''
                     \<and> length (takeWhile isDigit (take 3 m)) = 3)"

text \<open>\<^verbatim>\<open>/\b\d{4}[\s-]?\d{4}[\s-]?\d{4}[\s-]?\d{4}\b/g\<close>\<close>

definition cardRe1 :: regexp where
  "cardRe1 = \<lparr>items = map Atom
       [WordB, exactly 4 digit, optional spaceDash, exactly 4 digit, optional spaceDash, exactly 4 digit,
        optional spaceDash, exactly 4 digit, WordB],
     ignoreCase = False\<rparr>"

text \<open>\<^verbatim>\<open>/\b\d{13,19}\b/g\<close>\<close>

definition cardRe2 :: regexp where
  "cardRe2 = \<lparr>items = map Atom [WordB, Rep 13 (Some 19) digit, WordB], ignoreCase = False\<rparr>"

text \<open>\<^verbatim>\<open>/"(?:first|last|full|given|family|middle)?name"\s*:\s*"[^"]+"/gi\<close>\<close>

definition nameRe :: regexp where
  "nameRe = \<lparr>items = map Atom (lit ''\"'')
       @ [Alt (map lit [''first'', ''last'', ''full'', ''given'', ''family'', ''middle''] @ [[]])]
       @ map Atom (lit ''name\"'' @ [zeroOrMore space] @ lit '':'' @ [zeroOrMore space] @ lit ''\"''
                   @ [oneOrMore notQuote] @ lit ''\"''),
     ignoreCase = True\<rparr>"

text \<open>\<^verbatim>\<open>/\b\d+\s+[A-Za-z0-9\s]+(?:Street|St|Avenue|Ave|Road|Rd|Drive|Dr|Lane|Ln|Boulevard|Blvd|Court|Ct|Place|Pl)[^"]*/gi\<close>\<close>

definition addressRe :: regexp where
  "addressRe = \<lparr>items = map Atom
       [WordB, oneOrMore digit, oneOrMore space, oneOrMore (Pos (\<lambda>c. alnum c \<or> isJsSpace c))]
       @ [Alt (map lit [''Street'', ''St'', ''Avenue'', ''Ave'', ''Road'', ''Rd'', ''Drive'', ''Dr'',
                        ''Lane'', ''Ln'', ''Boulevard'', ''Blvd'', ''Court'', ''Ct'', ''Place'', ''Pl''])]
       @ [Atom (zeroOrMore notQuote)],
     ignoreCase = True\<rparr>"

definition redactPII :: "string \<Rightarrow> string" where
  "redactPII text =
     (if text = [] then text
      else
        let r1 = replaceAll emailRe (\<lambda>m. ''[EMAIL_REDACTED]'') text;
            r2 = replaceAll phoneRe1 (\<lambda>m. ''[PHONE_REDACTED]'') r1;
            r3 = replaceAll phoneRe2 (\<lambda>m. ''[PHONE_REDACTED]'') r2;
            r4 = replaceAll phoneRe3 (\<lambda>m. ''[PHONE_REDACTED]'') r3;
            r5 = replaceAll ssnRe1 (\<lambda>m. ''[SSN_REDACTED]'') r4;
            r6 = replaceAll ssnRe2 (\<lambda>m. if looksLikeSsn m then ''[SSN_REDACTED]'' else m) r5;
            r7 = replaceAll cardRe1 (\<lambda>m. ''[CARD_REDACTED]'') r6;
            r8 = replaceAll cardRe2
                   (\<lambda>m. if 13 \<le> length m \<and> length m \<le> 19 then ''[CARD_REDACTED]'' else m) r7;
            r9 = replaceAll nameRe (\<lambda>m. ''\"$1name\": \"[NAME_REDACTED]\"'') r8;
            r10 = replaceAll addressRe (\<lambda>m. ''[ADDRESS_REDACTED]'') r9
        in r10)"

section \<open>Unbilled Activity Audit (auditUnbilledActivities)\<close>

text \<open>
  The seven patterns of \<^verbatim>\<open>isVagueDescription\<close>, and the classifier with its reason:
  \<^verbatim>\<open>/^(meeting|call|email|phone|review|work|task|draft|research|prep|preparation|follow.?up|followup)\s*$/i\<close>,
  \<^verbatim>\<open>/^(mtg|mtng|tel|telcon|eml|em|rev|wk|tsk|drft|rsch|prep|f\/u|f\/up)\s*$/i\<close>,
  \<^verbatim>\<open>/^(see|see above|same|as above|as noted|per|per above)\s*$/i\<close>,
  \<^verbatim>\<open>/^(misc|miscellaneous|other|various|general|miscellaneous work|general work|other tasks)\s*$/i\<close>,
  \<^verbatim>\<open>/^[a-z]\s*$/i\<close>, \<^verbatim>\<open>/^\d+\s*$/\<close> and \<^verbatim>\<open>/^[^\w\s]+\s*$/\<close>.
\<close>

definition vaguePatterns :: "regexp list" where
  "vaguePatterns =
     [\<lparr>items = [Atom Bol,
                Alt (map lit [''meeting'', ''call'', ''email'', ''phone'', ''review'', ''work'', ''task'',
                              ''draft'', ''research'', ''prep'', ''preparation'']
                     @ [lit ''follow'' @ [optional anyChar] @ lit ''up'', lit ''followup'']),
                Atom (zeroOrMore space), Atom Eol],
       ignoreCase = True\<rparr>,
      \<lparr>items = [Atom Bol,
                Alt (map lit [''mtg'', ''mtng'', ''tel'', ''telcon'', ''eml'', ''em'', ''rev'', ''wk'',
                              ''tsk'', ''drft'', ''rsch'', ''prep'', ''f/u'', ''f/up'']),
                Atom (zeroOrMore space), Atom Eol],
       ignoreCase = True\<rparr>,
      \<lparr>items = [Atom Bol,
                Alt (map lit [''see'', ''see above'', ''same'', ''as above'', ''as noted'', ''per'',
                              ''per above'']),
                Atom (zeroOrMore space), Atom Eol],
       ignoreCase = True\<rparr>,
      \<lparr>items = [Atom Bol,
                Alt (map lit [''misc'', ''miscellaneous'', ''other'', ''various'', ''general'',
                              ''miscellaneous work'', ''general work'', ''other tasks'']),
                Atom (zeroOrMore space), Atom Eol],
       ignoreCase = True\<rparr>,
      \<lparr>items = map Atom [Bol, single (Pos (\<lambda>c. c \<in> set lowerLetters)), zeroOrMore space, Eol],
       ignoreCase = True\<rparr>,
      \<lparr>items = map Atom [Bol, oneOrMore digit, zeroOrMore space, Eol], ignoreCase = False\<rparr>,
      \<lparr>items = map Atom [Bol, oneOrMore (Neg (\<lambda>c. isWordChar c \<or> isJsSpace c)), zeroOrMore space, Eol],
       ignoreCase = False\<rparr>]"

fun anyPatternMatches :: "regexp list \<Rightarrow> string \<Rightarrow> bool" where
  "anyPatternMatches [] s = False"
| "anyPatternMatches (pattern # rest) s = (if regexTest pattern s then True else anyPatternMatches rest s)"

definition isVagueDescription :: "string \<Rightarrow> bool" where
  "isVagueDescription description =
     (if description = [] \<or> length (trim description) = 0 then True
      else if length (trim description) < 15 then True
      else anyPatternMatches vaguePatterns (trim description))"

fun showNat :: "nat \<Rightarrow> string" where
  "showNat n = (if n < 10 then [''0123456789'' ! n] else showNat (n div 10) @ [''0123456789'' ! (n mod 10)])"

definition getVagueReason :: "string \<Rightarrow> string" where
  "getVagueReason description =
     (if description = [] \<or> length (trim description) = 0 then ''Empty description''
      else if length (trim description) < 15
      then ''Too short ('' @ showNat (length (trim description))
           @ '' characters). Insurance typically requires at least 15 characters.''
      else ''Matches vague description pattern (e.g., \"meeting\", \"call\", \"review\" without context)'')"





definition orString :: "string option \<Rightarrow> string option \<Rightarrow> string option" where
  "orString a b = (if truthy a then a else b)"

definition orEmpty :: "string option \<Rightarrow> string" where
  "orEmpty a = (if truthy a then the a else [])"






section \<open>Ethical Conflict Check (performEthicalConflictCheck)\<close>

text \<open>
  The remote objects are loosely shaped JSON: every field the code reads with a fallback
  is an \<open>option\<close>. \<open>mt_practice_area\<close> stands for the value of
  \<^verbatim>\<open>matter.practice_area?.name || matter.practice_area\<close>, and the \<open>cr_contact_\<close> fields for
  those of the nested \<^verbatim>\<open>contactRel.contact\<close> object. The client is the record of the four
  requests the function issues through \<^verbatim>\<open>client.getInstance().get\<close>, each with the result
  the resilient client settles on (an error of the client, or the \<^verbatim>\<open>data.data\<close> payload);
  the number passed is the \<^verbatim>\<open>limit\<close> parameter.
\<close>

record contactJson =
  ct_id :: string
  ct_name :: "string option"
  ct_first_name :: "string option"
  ct_last_name :: "string option"
  ct_email :: "string option"
  ct_phone :: "string option"
  ct_company :: "string option"

record matterJson =
  mt_id :: string
  mt_display_number :: "string option"
  mt_number :: "string option"
  mt_description :: "string option"
  mt_status :: "string option"
  mt_practice_area :: "string option"
  mt_closed_date :: "string option"
  mt_updated_at :: "string option"

record contactRelJson =
  cr_id :: "string option"
  cr_contact_id :: "string option"
  cr_name :: "string option"
  cr_contact_name :: "string option"
  cr_contact_first_name :: "string option"
  cr_contact_last_name :: "string option"
  cr_role :: "string option"
  cr_relationship_type :: "string option"

record customFieldJson =
  cf_value :: "string option"
  cf_name :: "string option"
  cf_id :: "string option"

record matterDetailJson =
  md_contacts :: "contactRelJson list option"
  md_custom_fields :: "customFieldJson list option"

record clioApi =
  getContacts :: "string \<Rightarrow> nat \<Rightarrow> error + contactJson list"
  searchMatters :: "string \<Rightarrow> nat \<Rightarrow> error + matterJson list"
  listMatters :: "nat \<Rightarrow> error + matterJson list"
  getMatter :: "string \<Rightarrow> error + matterDetailJson"

datatype matchType = Contact | Matter

record directMatch =
  dm_type :: matchType
  dm_id :: string
  dm_name :: string
  dm_details :: "(string \<times> string option) list"

record relatedPartyMatch =
  rp_type :: matchType
  rp_id :: "string option"
  rp_name :: string
  rp_relationship :: string
  rp_source_matter_id :: string
  rp_source_matter_number :: "string option"

record closedMatter =
  cm_matter_id :: string
  cm_matter_number :: string
  cm_status :: "string option"
  cm_closed_date :: "string option"

record conflictCheckResult =
  search_query :: string
  direct_matches :: "directMatch list"
  related_party_matches :: "relatedPartyMatch list"
  closed_matter_history :: "closedMatter list"

text \<open>\<^verbatim>\<open>s.includes(t)\<close>: \<open>t\<close> occurs in \<open>s\<close> at some position.\<close>

definition stringIncludes :: "string \<Rightarrow> string \<Rightarrow> bool" where
  "stringIncludes s t = list_ex (\<lambda>k. startsWith (drop k s) t) [0..<Suc (length s)]"

text \<open>
  \<^verbatim>\<open>Promise.all\<close> on the two searches: fulfilled with both results when both are
  fulfilled, rejected with the reason of the promise that rejects first otherwise. Which
  of two failing searches rejects first is decided by the network; it is the parameter
  \<open>firstRejectsFirst\<close>.
\<close>

definition promiseAll2 :: "bool \<Rightarrow> error + 'a \<Rightarrow> error + 'b \<Rightarrow> error + ('a \<times> 'b)" where
  "promiseAll2 firstRejectsFirst a b =
     (case a of
        Inr x \<Rightarrow> (case b of Inr y \<Rightarrow> Inr (x, y) | Inl e2 \<Rightarrow> Inl e2)
      | Inl e1 \<Rightarrow> (case b of Inr y \<Rightarrow> Inl e1
                             | Inl e2 \<Rightarrow> Inl (if firstRejectsFirst then e1 else e2)))"

definition contactMatch :: "contactJson \<Rightarrow> directMatch" where
  "contactMatch contact =
     \<lparr>dm_type = Contact,
      dm_id = ct_id contact,
      dm_name = (if truthy (ct_name contact) then the (ct_name contact)
                 else trim (orEmpty (ct_first_name contact) @ '' '' @ orEmpty (ct_last_name contact))),
      dm_details = [(''email'', ct_email contact), (''phone'', ct_phone contact),
                    (''company'', ct_company contact)]\<rparr>"

definition matterMatch :: "matterJson \<Rightarrow> directMatch" where
  "matterMatch m =
     \<lparr>dm_type = Matter,
      dm_id = mt_id m,
      dm_name = orEmpty (orString (mt_display_number m) (orString (mt_number m) (mt_description m))),
      dm_details = [(''description'', mt_description m), (''status'', mt_status m),
                    (''practice_area'', mt_practice_area m)]\<rparr>"

definition isClosed :: "matterJson \<Rightarrow> bool" where
  "isClosed m = (mt_status m = Some ''Closed'' \<or> truthy (mt_closed_date m))"

definition closedEntry :: "matterJson \<Rightarrow> closedMatter" where
  "closedEntry m =
     \<lparr>cm_matter_id = mt_id m,
      cm_matter_number = orEmpty (orString (mt_display_number m) (mt_number m)),
      cm_status = mt_status m,
      cm_closed_date = orString (mt_closed_date m) (mt_updated_at m)\<rparr>"

definition allMattersForCheck :: "clioApi \<Rightarrow> matterJson list \<Rightarrow> matterJson list" where
  "allMattersForCheck api matters =
     (if length matters < 100
      then (case listMatters api 100 of
              Inr allMatters \<Rightarrow>
                matters @ filter (\<lambda>m. mt_id m \<notin> set (map mt_id matters)) allMatters
            | Inl e \<Rightarrow> matters)
      else matters)"

definition contactRelName :: "contactRelJson \<Rightarrow> string" where
  "contactRelName contactRel =
     (if truthy (cr_name contactRel) then the (cr_name contactRel)
      else if truthy (cr_contact_name contactRel) then the (cr_contact_name contactRel)
      else trim (orEmpty (cr_contact_first_name contactRel) @ '' ''
                 @ orEmpty (cr_contact_last_name contactRel)))"

definition contactRelMatches :: "string \<Rightarrow> matterJson \<Rightarrow> contactRelJson list \<Rightarrow> relatedPartyMatch list" where
  "contactRelMatches searchQuery m rels =
     map (\<lambda>contactRel.
            \<lparr>rp_type = Contact,
             rp_id = orString (cr_id contactRel) (cr_contact_id contactRel),
             rp_name = contactRelName contactRel,
             rp_relationship = (if truthy (orString (cr_role contactRel) (cr_relationship_type contactRel))
                                then the (orString (cr_role contactRel) (cr_relationship_type contactRel))
                                else ''Related Contact''),
             rp_source_matter_id = mt_id m,
             rp_source_matter_number = orString (mt_display_number m) (mt_number m)\<rparr>)
         (filter (\<lambda>contactRel. stringIncludes (toLowerCase (contactRelName contactRel))
                                        (toLowerCase searchQuery)) rels)"

definition customFieldMatches :: "string \<Rightarrow> matterJson \<Rightarrow> customFieldJson list \<Rightarrow> relatedPartyMatch list" where
  "customFieldMatches searchQuery m customFields =
     map (\<lambda>field.
            \<lparr>rp_type = Matter,
             rp_id = Some (mt_id m),
             rp_name = orEmpty (orString (mt_display_number m) (mt_number m)),
             rp_relationship =
               (if truthy (orString (cf_name field) (cf_id field))
                then the (orString (cf_name field) (cf_id field)) else ''Custom Field'')
               @ '': '' @ (case cf_value field of None \<Rightarrow> ''undefined'' | Some v \<Rightarrow> v),
             rp_source_matter_id = mt_id m,
             rp_source_matter_number = orString (mt_display_number m) (mt_number m)\<rparr>)
         (filter (\<lambda>field. stringIncludes (toLowerCase (orEmpty (cf_value field)))
                                   (toLowerCase searchQuery)) customFields)"

definition relatedPartyMatchesOf :: "clioApi \<Rightarrow> string \<Rightarrow> matterJson \<Rightarrow> relatedPartyMatch list" where
  "relatedPartyMatchesOf api searchQuery m =
     (case getMatter api (mt_id m) of
        Inl e \<Rightarrow> []
      | Inr matterDetail \<Rightarrow>
          (case md_contacts matterDetail of
             None \<Rightarrow> []
           | Some rels \<Rightarrow> contactRelMatches searchQuery m rels)
          @ (case md_custom_fields matterDetail of
               None \<Rightarrow> []
             | Some customFields \<Rightarrow> customFieldMatches searchQuery m customFields))"

text \<open>
  The function body after the join, then the function. A detail request that fails
  contributes no match; \<^verbatim>\<open>JSON.stringify\<close> is the parameter \<open>formatConflictCheckReport\<close>.
  The outer \<^verbatim>\<open>catch\<close> logs and rethrows, so a rejected join is the result.
\<close>

definition conflictCheckResultOf ::
  "clioApi \<Rightarrow> string \<Rightarrow> contactJson list \<Rightarrow> matterJson list \<Rightarrow> conflictCheckResult" where
  "conflictCheckResultOf api searchQuery contacts matters =
     \<lparr>search_query = searchQuery,
      direct_matches = map contactMatch contacts @ map matterMatch matters,
      related_party_matches =
        concat (map (relatedPartyMatchesOf api searchQuery)
                    (take 20 (allMattersForCheck api matters))),
      closed_matter_history = map closedEntry (filter isClosed matters)\<rparr>"

definition performEthicalConflictCheck ::
  "(conflictCheckResult \<Rightarrow> string) \<Rightarrow> clioApi \<Rightarrow> bool \<Rightarrow> string \<Rightarrow> error + string" where
  "performEthicalConflictCheck formatConflictCheckReport api contactsRejectFirst searchQuery =
     (case promiseAll2 contactsRejectFirst (getContacts api searchQuery 100)
                                           (searchMatters api searchQuery 100) of
        Inl e \<Rightarrow> Inl e
      | Inr (contacts, matters) \<Rightarrow>
          Inr (formatConflictCheckReport (conflictCheckResultOf api searchQuery contacts matters)))"

text \<open>A remote side whose two searches answer as given, and whose other requests fail.\<close>

definition apiAnswering :: "error + contactJson list \<Rightarrow> error + matterJson list \<Rightarrow> clioApi" where
  "apiAnswering contactsAnswer mattersAnswer =
     \<lparr>getContacts = (\<lambda>q limit. contactsAnswer),
      searchMatters = (\<lambda>q limit. mattersAnswer),
      listMatters = (\<lambda>limit. Inl (AxiosError (Failed ''ERR_NETWORK''))),
      getMatter = (\<lambda>matterId. Inl (AxiosError (Failed ''ERR_NETWORK'')))\<rparr>"

section \<open>Properties of the token broker\<close>

text \<open>
  Claim C3. For a stored session that is not expired at the expiry test, resolving it with
  autoRefresh: when the remaining time to live (at the reading taken in the refresh
  branch) is strictly below 7 days, the stored expiresAt becomes that reading plus 30 days
  and nothing else in the table changes; when it is at least 7 days, the table is left as
  it was. In both cases the bound credential is returned.
\<close>

theorem getSessionToken_sliding_refresh:
  assumes "store sessionId = Some s" and "\<not> expiresAt s < now1"
  shows "(expiresAt s - now2 < 7 * 24 * 60 * 60 * 1000 \<longrightarrow>
            getSessionToken sessionId True now1 now2 store =
              (Some (token s),
               store(sessionId \<mapsto> s\<lparr>expiresAt := now2 + 30 * 24 * 60 * 60 * 1000\<rparr>)))
       \<and> (\<not> expiresAt s - now2 < 7 * 24 * 60 * 60 * 1000 \<longrightarrow>
            getSessionToken sessionId True now1 now2 store = (Some (token s), store))"
  using assms by (simp add: getSessionToken_def refreshThreshold_def thirtyDays_def)

theorem getSessionToken_sliding_refresh_witness:
  "getSessionToken ''abc'' True 1000 1001
       [''abc'' \<mapsto> \<lparr>token = ''tok'', expiresAt = 86400000, createdAt = 0\<rparr>]
     = (Some ''tok'', [''abc'' \<mapsto> \<lparr>token = ''tok'', expiresAt = 2592001001, createdAt = 0\<rparr>])
   \<and> getSessionToken ''abc'' True 1000 1001
       [''abc'' \<mapsto> \<lparr>token = ''tok'', expiresAt = 2000000000, createdAt = 0\<rparr>]
     = (Some ''tok'', [''abc'' \<mapsto> \<lparr>token = ''tok'', expiresAt = 2000000000, createdAt = 0\<rparr>])"
  using getSessionToken_sliding_refresh
          [of "[''abc'' \<mapsto> \<lparr>token = ''tok'', expiresAt = 86400000, createdAt = 0\<rparr>]"
              "''abc''" "\<lparr>token = ''tok'', expiresAt = 86400000, createdAt = 0\<rparr>" 1000 1001]
        getSessionToken_sliding_refresh
          [of "[''abc'' \<mapsto> \<lparr>token = ''tok'', expiresAt = 2000000000, createdAt = 0\<rparr>]"
              "''abc''" "\<lparr>token = ''tok'', expiresAt = 2000000000, createdAt = 0\<rparr>" 1000 1001]
  by simp

text \<open>
  Claim C10. For a stored session that is already expired, getSession still returns the
  whole stored record (credential included) and leaves the table as it was, whereas
  getSessionToken returns nothing and deletes the entry; the expired record stops being
  retrievable through getSession once the sweep has run.
\<close>

theorem getSession_returns_expired:
  assumes "store sessionId = Some s" and "expiresAt s < now"
  shows "getSession sessionId store = (Some s, store)
       \<and> token (the (fst (getSession sessionId store))) = token s
       \<and> getSessionToken sessionId autoRefresh now now2 store = (None, store(sessionId := None))
       \<and> fst (getSession sessionId (sweepSessions now store)) = None"
  using assms by (simp add: getSession_def getSessionToken_def sweepSessions_def)

theorem getSession_returns_expired_witness:
  "getSession ''abc'' [''abc'' \<mapsto> \<lparr>token = ''tok'', expiresAt = 5, createdAt = 0\<rparr>]
     = (Some \<lparr>token = ''tok'', expiresAt = 5, createdAt = 0\<rparr>,
        [''abc'' \<mapsto> \<lparr>token = ''tok'', expiresAt = 5, createdAt = 0\<rparr>])
   \<and> fst (getSessionToken ''abc'' True 10 10
              [''abc'' \<mapsto> \<lparr>token = ''tok'', expiresAt = 5, createdAt = 0\<rparr>]) = None"
  using getSession_returns_expired
          [of "[''abc'' \<mapsto> \<lparr>token = ''tok'', expiresAt = 5, createdAt = 0\<rparr>]"
              "''abc''" "\<lparr>token = ''tok'', expiresAt = 5, createdAt = 0\<rparr>" 10 True 10]
  by simp

section \<open>Properties of the caller identity\<close>

text \<open>
  Claim C5, as the limiter implements it. The identity is taken from, in this order: a
  non-empty sessionId query parameter; an Authorization header that starts with
  "Bearer session:" (the rest of the header is the id); the source address, which is the
  first comma-separated element of x-forwarded-for, trimmed, when that header is not
  empty, else a non-empty x-real-ip, else "unknown". The dedicated session-id header
  X-MCP-Session-ID is never read: changing, adding or removing it never changes the
  identity.
\<close>

theorem getRequestIdentifier_order:
  "(truthy (searchParams r ''sessionId'') \<longrightarrow>
      getRequestIdentifier r = ''session:'' @ the (searchParams r ''sessionId''))
 \<and> (\<not> truthy (searchParams r ''sessionId'') \<and> truthy (headers r ''authorization'')
      \<and> startsWith (the (headers r ''authorization'')) ''Bearer session:'' \<longrightarrow>
      getRequestIdentifier r = ''session:'' @ drop 15 (the (headers r ''authorization'')))
 \<and> (\<not> truthy (searchParams r ''sessionId'')
      \<and> \<not> (truthy (headers r ''authorization'')
             \<and> startsWith (the (headers r ''authorization'')) ''Bearer session:'') \<longrightarrow>
      getRequestIdentifier r =
        ''ip:'' @ (if truthy (headers r ''x-forwarded-for'')
                   then trim (takeWhile (\<lambda>c. c \<noteq> CHR '','') (the (headers r ''x-forwarded-for'')))
                   else if truthy (headers r ''x-real-ip'') then the (headers r ''x-real-ip'')
                   else ''unknown''))
 \<and> getRequestIdentifier (r\<lparr>headers := (headers r)(''x-mcp-session-id'' := v)\<rparr>)
      = getRequestIdentifier r"
  by (simp add: getRequestIdentifier_def headersGet_def toLowerCase_def toLowerChar_def
        upperLetters_def lowerLetters_def substringFrom_def splitFirst_def Let_def)

theorem getRequestIdentifier_order_witness:
  "getRequestIdentifier \<lparr>searchParams = [''sessionId'' \<mapsto> ''s1''],
                         headers = [''authorization'' \<mapsto> ''Bearer session:s2'']\<rparr> = ''session:s1''
 \<and> getRequestIdentifier \<lparr>searchParams = Map.empty,
                         headers = [''authorization'' \<mapsto> ''Bearer session:s2'',
                                    ''x-forwarded-for'' \<mapsto> ''203.0.113.7'']\<rparr> = ''session:s2''
 \<and> getRequestIdentifier \<lparr>searchParams = Map.empty,
                         headers = [''x-forwarded-for'' \<mapsto> ''203.0.113.7, 10.0.0.1'']\<rparr> = ''ip:203.0.113.7''"
  using getRequestIdentifier_order
          [of "\<lparr>searchParams = [''sessionId'' \<mapsto> ''s1''],
                headers = [''authorization'' \<mapsto> ''Bearer session:s2'']\<rparr>" None]
        getRequestIdentifier_order
          [of "\<lparr>searchParams = Map.empty,
                headers = [''authorization'' \<mapsto> ''Bearer session:s2'',
                           ''x-forwarded-for'' \<mapsto> ''203.0.113.7'']\<rparr>" None]
        getRequestIdentifier_order
          [of "\<lparr>searchParams = Map.empty,
                headers = [''x-forwarded-for'' \<mapsto> ''203.0.113.7, 10.0.0.1'']\<rparr>" None]
  by (simp add: truthy_def startsWith_def trim_def isJsSpace_def)

text \<open>
  Claim C5 as the specification words it fails: a request that carries only the dedicated
  session-id header and a forwarded address is counted under the address.
\<close>

theorem getRequestIdentifier_ignores_session_header:
  "getRequestIdentifier \<lparr>searchParams = Map.empty,
                         headers = [''x-mcp-session-id'' \<mapsto> ''abc'',
                                    ''x-forwarded-for'' \<mapsto> ''203.0.113.7'']\<rparr> = ''ip:203.0.113.7''"
  by (simp add: getRequestIdentifier_def headersGet_def toLowerCase_def toLowerChar_def
        upperLetters_def lowerLetters_def substringFrom_def splitFirst_def Let_def
        truthy_def startsWith_def trim_def isJsSpace_def)

section \<open>Properties of the Matter Intelligence Brief\<close>




section \<open>Properties of the resilient API client\<close>

lemma upt_shift: "[0..<Suc m] = 0 # map Suc [0..<m]"
  by (simp add: upt_conv_Cons map_Suc_upt del: upt_Suc)

lemma request_step:
  assumes "transmit (server a) = Responded r" "status r = 429 \<or> 500 \<le> status r" "c < maxRetries"
  shows "request server a c st =
                request server (Suc a) (Suc c)
                  (st\<lparr>trace := trace st @ [Sent a, Slept (retryWait r c)]\<rparr>)"
  apply (subst request.simps)
  using assms apply (auto simp add: sleep_def retryWait_def Let_def)
  done

lemma request_retry_run:
  assumes "\<forall>j<n. transmit (server (a + j)) = Responded (rs j)
                 \<and> (status (rs j) = 429 \<or> 500 \<le> status (rs j))"
      and "c + n \<le> maxRetries"
  shows "request server a c st =
           request server (a + n) (c + n)
             (st\<lparr>trace := trace st
                    @ concat (map (\<lambda>j. [Sent (a + j), Slept (retryWait (rs j) (c + j))]) [0..<n])\<rparr>)"
  using assms
proof (induction n arbitrary: a c st rs)
  case 0
  then show ?case by simp
next
  case (Suc m)
  from Suc.prems(1) have "transmit (server (a + 0)) = Responded (rs 0)
                 \<and> (status (rs 0) = 429 \<or> 500 \<le> status (rs 0))"
    by blast
  then have h0: "transmit (server a) = Responded (rs 0)"
    and s0: "status (rs 0) = 429 \<or> 500 \<le> status (rs 0)"
    by simp_all
  from Suc.prems(2) have c: "c < maxRetries" by simp
  have rest: "\<forall>j<m. transmit (server (Suc a + j)) = Responded ((rs \<circ> Suc) j)
                 \<and> (status ((rs \<circ> Suc) j) = 429 \<or> 500 \<le> status ((rs \<circ> Suc) j))"
  proof (intro allI impI)
    fix j assume "j < m"
    then have "Suc j < Suc m" by simp
    with Suc.prems(1) have "transmit (server (a + Suc j)) = Responded (rs (Suc j))
                 \<and> (status (rs (Suc j)) = 429 \<or> 500 \<le> status (rs (Suc j)))"
      by blast
    then show "transmit (server (Suc a + j)) = Responded ((rs \<circ> Suc) j)
                 \<and> (status ((rs \<circ> Suc) j) = 429 \<or> 500 \<le> status ((rs \<circ> Suc) j))"
      by simp
  qed
  have bound: "Suc c + m \<le> maxRetries" using Suc.prems(2) by simp
  have step: "request server a c st =
                request server (Suc a) (Suc c)
                  (st\<lparr>trace := trace st @ [Sent a, Slept (retryWait (rs 0) c)]\<rparr>)"
    using h0 s0 c by (rule request_step)
  show ?case
    unfolding step Suc.IH [OF rest bound]
    by (simp add: upt_shift comp_def del: upt_Suc)
qed


lemma trace_onFulfilled: "trace (onFulfilled r st) = trace st"
  by (simp add: onFulfilled_def Let_def split: option.splits)

lemma request_fulfilled:
  assumes "transmit (server a) = Responded r" "200 \<le> status r" "status r < 300"
  shows "request server a c st = (Inr r, onFulfilled r (st\<lparr>trace := trace st @ [Sent a]\<rparr>))"
  using assms by (subst request.simps) (simp add: Let_def)

lemma request_exhausted_429:
  assumes "transmit (server a) = Responded r" "status r = 429" "\<not> c < maxRetries"
  shows "request server a c st = (Inl rateLimitExceeded, st\<lparr>trace := trace st @ [Sent a]\<rparr>)"
  using assms by (subst request.simps) (simp add: Let_def)



lemma run_from_zero:
  assumes "\<forall>j<n. transmit (server j) = Responded (rs j)
                 \<and> (status (rs j) = 429 \<or> 500 \<le> status (rs j))"
      and "n \<le> maxRetries"
  shows "request server 0 0 st =
           request server n n
             (st\<lparr>trace := trace st
                    @ concat (map (\<lambda>j. [Sent j, Slept (retryWait (rs j) j)]) [0..<n])\<rparr>)"
  using request_retry_run [of n server 0 rs 0 st] assms by simp

lemma transmit_scripted:
  "transmit (scripted codes k) = Responded (plainResponse (if k < length codes then codes ! k else 200))"
  by (simp add: scripted_def transmit_def timeout_def)

text \<open>
  Claim C1, as the interceptor implements it. While the remote side answers 429, the
  client waits and sends again: the wait after the response to transmission \<open>j\<close> is the
  retry-after header read by parseInt, times 1000 ms, when that header is present and not
  empty, and 1000 * 2^j ms otherwise. There are at most three retries, four transmissions
  in all: a 2xx answer to any of the first four transmissions is returned, after one wait
  per preceding 429; a fourth 429 fails the call with the rate-limit error. In particular
  429, 429, 200 returns the 200 response after waits of 1000 and 2000 ms.
\<close>

theorem call_rate_limited:
  assumes "\<forall>j<n. transmit (server j) = Responded (rs j) \<and> status (rs j) = 429"
  shows "(n \<le> 3 \<and> transmit (server n) = Responded r \<and> 200 \<le> status r \<and> status r < 300 \<longrightarrow>
            fst (call server st) = Inr r
          \<and> trace (snd (call server st)) =
              trace st @ concat (map (\<lambda>j. [Sent j, Slept (rateLimitWait (rs j) j)]) [0..<n]) @ [Sent n])
       \<and> (n = 4 \<longrightarrow>
            fst (call server st) = Inl rateLimitExceeded
          \<and> trace (snd (call server st)) =
              trace st @ concat (map (\<lambda>j. [Sent j, Slept (rateLimitWait (rs j) j)]) [0..<3]) @ [Sent 3])
       \<and> (\<forall>j. rateLimitWait (rs j) j =
              (if truthy (respHeaders (rs j) ''retry-after'')
               then map_option (\<lambda>s. s * 1000) (parseInt10 (the (respHeaders (rs j) ''retry-after'')))
               else Some (1000 * 2 ^ j)))"
proof (intro conjI impI allI)
  have waits: "\<And>m. m \<le> n \<Longrightarrow>
      map (\<lambda>j. [Sent j, Slept (retryWait (rs j) j)]) [0..<m]
    = map (\<lambda>j. [Sent j, Slept (rateLimitWait (rs j) j)]) [0..<m]"
    using assms by (intro map_cong) (auto simp: retryWait_def)
  have retryable: "\<And>m. m \<le> n \<Longrightarrow> \<forall>j<m. transmit (server j) = Responded (rs j)
                 \<and> (status (rs j) = 429 \<or> 500 \<le> status (rs j))"
    using assms by auto
  {
    assume a: "n \<le> 3 \<and> transmit (server n) = Responded r \<and> 200 \<le> status r \<and> status r < 300"
    then have n: "n \<le> maxRetries" by (simp add: maxRetries_def)
    have run: "call server st = request server n n
             (st\<lparr>trace := trace st
                    @ concat (map (\<lambda>j. [Sent j, Slept (rateLimitWait (rs j) j)]) [0..<n])\<rparr>)"
      unfolding call_def using run_from_zero [OF retryable [OF order_refl] n, of st] waits [OF order_refl]
      by simp
    from a show "fst (call server st) = Inr r"
      unfolding run by (simp add: request_fulfilled)
    from a show "trace (snd (call server st)) =
              trace st @ concat (map (\<lambda>j. [Sent j, Slept (rateLimitWait (rs j) j)]) [0..<n]) @ [Sent n]"
      unfolding run by (simp add: request_fulfilled trace_onFulfilled)
  }
  {
    assume n4: "n = 4"
    have m: "(3::nat) \<le> n" using n4 by simp
    have last: "transmit (server 3) = Responded (rs 3)" "status (rs 3) = 429"
      using assms n4 by auto
    have run: "call server st = request server 3 3
             (st\<lparr>trace := trace st
                    @ concat (map (\<lambda>j. [Sent j, Slept (rateLimitWait (rs j) j)]) [0..<3])\<rparr>)"
      unfolding call_def using run_from_zero [OF retryable [OF m], of st] waits [OF m]
      by (simp add: maxRetries_def)
    show "fst (call server st) = Inl rateLimitExceeded"
      unfolding run using last by (simp add: request_exhausted_429 maxRetries_def)
    show "trace (snd (call server st)) =
              trace st @ concat (map (\<lambda>j. [Sent j, Slept (rateLimitWait (rs j) j)]) [0..<3]) @ [Sent 3]"
      unfolding run using last by (simp add: request_exhausted_429 maxRetries_def)
  }
  fix j
  show "rateLimitWait (rs j) j =
              (if truthy (respHeaders (rs j) ''retry-after'')
               then map_option (\<lambda>s. s * 1000) (parseInt10 (the (respHeaders (rs j) ''retry-after'')))
               else Some (1000 * 2 ^ j))"
    by (simp add: rateLimitWait_def calculateBackoffDelay_def baseRetryDelay_def Let_def)
qed


theorem call_rate_limited_witness:
  "fst (call (scripted [429, 429, 200]) (initialState 0)) = Inr (plainResponse 200)
 \<and> trace (snd (call (scripted [429, 429, 200]) (initialState 0)))
     = [Sent 0, Slept (Some 1000), Sent 1, Slept (Some 2000), Sent 2]
 \<and> fst (call (scripted [429, 429, 429, 429]) (initialState 0)) = Inl rateLimitExceeded
 \<and> trace (snd (call (scripted [429, 429, 429, 429]) (initialState 0)))
     = [Sent 0, Slept (Some 1000), Sent 1, Slept (Some 2000), Sent 2, Slept (Some 4000), Sent 3]"
proof -
  have h2: "\<forall>j<2. transmit (scripted [429, 429, 200] j) = Responded (plainResponse 429)
                 \<and> status (plainResponse 429) = 429"
    by (simp add: transmit_scripted plainResponse_def less_Suc_eq numeral_2_eq_2)
  have h4: "\<forall>j<4. transmit (scripted [429, 429, 429, 429] j) = Responded (plainResponse 429)
                 \<and> status (plainResponse 429) = 429"
    by (simp add: transmit_scripted plainResponse_def less_Suc_eq numeral_eq_Suc)
  have w: "\<And>j. rateLimitWait (plainResponse 429) j = Some (1000 * 2 ^ j)"
    by (simp add: rateLimitWait_def plainResponse_def truthy_def calculateBackoffDelay_def
          baseRetryDelay_def)
  have l2: "[0..<2] = [0, Suc 0]" by (simp add: numeral_2_eq_2)
  have l3: "[0..<3] = [0, Suc 0, 2]" by (simp add: numeral_3_eq_3 numeral_2_eq_2)
  show ?thesis
    using call_rate_limited [OF h2, of "plainResponse 200" "initialState 0"]
          call_rate_limited [OF h4, of "plainResponse 200" "initialState 0"]
    by (simp add: transmit_scripted l2 l3 initialState_def plainResponse_def truthy_def
          rateLimitWait_def calculateBackoffDelay_def baseRetryDelay_def)
qed

text \<open>
  Claim C1 as the specification words it (three attempts in all) fails: after three 429
  responses the client waits 4000 ms and sends a fourth time, and returns the answer to
  that fourth transmission.
\<close>

theorem call_fourth_attempt:
  "fst (call (scripted [429, 429, 429, 200]) (initialState 0)) = Inr (plainResponse 200)
 \<and> trace (snd (call (scripted [429, 429, 429, 200]) (initialState 0)))
     = [Sent 0, Slept (Some 1000), Sent 1, Slept (Some 2000), Sent 2, Slept (Some 4000), Sent 3]"
  by (simp add: call_def request.simps transmit_scripted plainResponse_def maxRetries_def
        sleep_def rateLimitWait_def truthy_def calculateBackoffDelay_def baseRetryDelay_def
        onFulfilled_def initialState_def Let_def)






section \<open>Properties of the PII redaction filter\<close>

lemma redact_once: "redactPII ''\"name\":\"a\"name\":\"b\"'' = ''\"$1name\": \"[NAME_REDACTED]\"name\":\"b\"''"
  by code_simp

lemma redact_twice: "redactPII ''\"$1name\": \"[NAME_REDACTED]\"name\":\"b\"'' = ''\"$1name\": \"[NAME_REDACTED]\"$1name\": \"[NAME_REDACTED]\"''"
  by code_simp

text \<open>
  Claim C6: redactPII is idempotent. It is not, on the input
  \<^verbatim>\<open>"name":"a"name":"b"\<close>: the first pass redacts the first name field and writes
  \<^verbatim>\<open>"$1name": "[NAME_REDACTED]"\<close> for it, which the name pattern no longer matches, so that
  the closing quote of the replacement opens a second name field in the second pass.
\<close>

theorem redactPII_not_idempotent:
  "redactPII ''\"name\":\"a\"name\":\"b\"'' = ''\"$1name\": \"[NAME_REDACTED]\"name\":\"b\"''
 \<and> redactPII (redactPII ''\"name\":\"a\"name\":\"b\"'')
     = ''\"$1name\": \"[NAME_REDACTED]\"$1name\": \"[NAME_REDACTED]\"''
 \<and> redactPII (redactPII ''\"name\":\"a\"name\":\"b\"'') \<noteq> redactPII ''\"name\":\"a\"name\":\"b\"''"
  by (simp add: redact_once redact_twice)

section \<open>Properties of the Unbilled Activity Audit\<close>

lemma length_trim_le: "length (trim s) \<le> length s"
proof -
  have "length (trim s) \<le> length (dropWhile isJsSpace s)"
    unfolding trim_def using length_dropWhile_le [of isJsSpace "rev (dropWhile isJsSpace s)"] by simp
  also have "\<dots> \<le> length s" by (rule length_dropWhile_le)
  finally show ?thesis .
qed

lemma anyPatternMatches_iff: "anyPatternMatches ps s \<longleftrightarrow> (\<exists>p\<in>set ps. regexTest p s)"
  by (induction ps) auto

lemma drafted_not_vague:
  "\<not> anyPatternMatches vaguePatterns ''Drafted Motion to Dismiss defendant's counterclaim''"
  by code_simp

lemma drafted_trim:
  "trim ''Drafted Motion to Dismiss defendant's counterclaim'' = ''Drafted Motion to Dismiss defendant's counterclaim''"
  by code_simp

lemma call_matches: "regexTest (hd vaguePatterns) ''Call''"
  by code_simp

lemma short_is_vague: "length d < 15 \<Longrightarrow> isVagueDescription d"
  using length_trim_le [of d] by (simp add: isVagueDescription_def)

text \<open>
  Claim C8. A description is classified vague exactly when it is empty or blank, or its
  trimmed length is below 15, or its trimmed text matches one of the seven patterns. In
  particular "Call" is vague (and matches the first pattern), every description of 10
  characters is vague,
  "Drafted Motion to Dismiss defendant's counterclaim" is not vague, and the empty
  description is vague with the reason "Empty description".
\<close>

theorem isVagueDescription_classifier:
  "(isVagueDescription d \<longleftrightarrow>
      (d = [] \<or> trim d = [] \<or> length (trim d) < 15
       \<or> (\<exists>p\<in>set vaguePatterns. regexTest p (trim d))))
 \<and> isVagueDescription ''Call'' \<and> regexTest (hd vaguePatterns) ''Call''
 \<and> (length d = 10 \<longrightarrow> isVagueDescription d)
 \<and> \<not> isVagueDescription ''Drafted Motion to Dismiss defendant's counterclaim''
 \<and> isVagueDescription '''' \<and> getVagueReason '''' = ''Empty description''"
proof (intro conjI)
  show "isVagueDescription d \<longleftrightarrow>
      (d = [] \<or> trim d = [] \<or> length (trim d) < 15
       \<or> (\<exists>p\<in>set vaguePatterns. regexTest p (trim d)))"
    by (auto simp add: isVagueDescription_def anyPatternMatches_iff)
  show "isVagueDescription ''Call''" by (rule short_is_vague) simp
  show "regexTest (hd vaguePatterns) ''Call''" by (rule call_matches)
  show "length d = 10 \<longrightarrow> isVagueDescription d" by (simp add: short_is_vague)
  show "\<not> isVagueDescription ''Drafted Motion to Dismiss defendant's counterclaim''"
    unfolding isVagueDescription_def drafted_trim using drafted_not_vague by simp
  show "isVagueDescription ''''" by (simp add: isVagueDescription_def)
  show "getVagueReason '''' = ''Empty description''" by (simp add: getVagueReason_def)
qed

theorem isVagueDescription_classifier_witness:
  "isVagueDescription ''0123456789''
 \<and> (\<exists>p\<in>set vaguePatterns. regexTest p (trim ''miscellaneous work''))"
proof -
  have w: "isVagueDescription ''miscellaneous work''"
    unfolding isVagueDescription_def by code_simp
  have l: "\<not> length (trim ''miscellaneous work'') < 15" "trim ''miscellaneous work'' \<noteq> []"
    by code_simp+
  have c1: "isVagueDescription ''0123456789''"
    using isVagueDescription_classifier [of "''0123456789''", THEN conjunct2, THEN conjunct2, THEN conjunct2, THEN conjunct1]
    by simp
  have c2: "\<exists>p\<in>set vaguePatterns. regexTest p (trim ''miscellaneous work'')"
    using isVagueDescription_classifier [of "''miscellaneous work''", THEN conjunct1] w l
    by simp
  from c1 c2 show ?thesis by simp
qed





section \<open>Properties of the Ethical Conflict Check\<close>

text \<open>
  Claim C4. The two initial searches (contacts and matters, each requested with limit 100)
  are joined all-or-nothing: when one of them fails the operation fails with its error,
  when both fail it fails with the error of the one that rejected first, and in neither
  case is a report returned; a report is returned exactly when both searches succeed,
  whatever the later listing and detail requests do.
\<close>

theorem performEthicalConflictCheck_all_or_nothing:
  "(getContacts api q 100 = Inl e \<and> searchMatters api q 100 = Inr ms \<longrightarrow>
      performEthicalConflictCheck fmt api ord q = Inl e)
 \<and> (getContacts api q 100 = Inr cs \<and> searchMatters api q 100 = Inl e' \<longrightarrow>
      performEthicalConflictCheck fmt api ord q = Inl e')
 \<and> (getContacts api q 100 = Inl e \<and> searchMatters api q 100 = Inl e' \<longrightarrow>
      performEthicalConflictCheck fmt api ord q = Inl (if ord then e else e'))
 \<and> (getContacts api q 100 = Inr cs \<and> searchMatters api q 100 = Inr ms \<longrightarrow>
      performEthicalConflictCheck fmt api ord q = Inr (fmt (conflictCheckResultOf api q cs ms)))"
  by (simp add: performEthicalConflictCheck_def promiseAll2_def)

theorem performEthicalConflictCheck_all_or_nothing_witness:
  "performEthicalConflictCheck search_query (apiAnswering (Inl rateLimitExceeded) (Inr [])) True ''Jane Smith''
     = Inl rateLimitExceeded
 \<and> performEthicalConflictCheck search_query (apiAnswering (Inr []) (Inl authenticationFailed)) True ''Jane Smith''
     = Inl authenticationFailed
 \<and> performEthicalConflictCheck search_query
       (apiAnswering (Inl rateLimitExceeded) (Inl authenticationFailed)) False ''Jane Smith''
     = Inl authenticationFailed
 \<and> performEthicalConflictCheck search_query (apiAnswering (Inr []) (Inr [])) True ''Jane Smith''
     = Inr ''Jane Smith''"
  using performEthicalConflictCheck_all_or_nothing
          [of "apiAnswering (Inl rateLimitExceeded) (Inr [])" "''Jane Smith''" rateLimitExceeded "[]"
              search_query True "[]" authenticationFailed]
        performEthicalConflictCheck_all_or_nothing
          [of "apiAnswering (Inr []) (Inl authenticationFailed)" "''Jane Smith''" rateLimitExceeded "[]"
              search_query True "[]" authenticationFailed]
        performEthicalConflictCheck_all_or_nothing
          [of "apiAnswering (Inl rateLimitExceeded) (Inl authenticationFailed)" "''Jane Smith''"
              rateLimitExceeded "[]" search_query False "[]" authenticationFailed]
        performEthicalConflictCheck_all_or_nothing
          [of "apiAnswering (Inr []) (Inr [])" "''Jane Smith''" rateLimitExceeded "[]"
              search_query True "[]" authenticationFailed]
  by (simp add: apiAnswering_def conflictCheckResultOf_def)

end
